theory Spec2Isabelle
  imports Main "HOL-Library.Word"
begin

unbundle bit_operations_syntax

section \<open>marb: an in-memory static file server (main.go)\<close>

text \<open>
  The program loads a directory tree into a map from path to file record once, at
  startup, and then answers HTTP requests from that map. This theory embeds
  \<^verbatim>\<open>main.go\<close> function by function. What the program takes from the Go standard
  library and from the operating system is either modelled after its documented
  behaviour (package \<^verbatim>\<open>path\<close>, the \<^verbatim>\<open>http.ResponseWriter\<close>, \<^verbatim>\<open>http.Error\<close>,
  \<^verbatim>\<open>http.Redirect\<close>) or taken as a parameter (gzip, MIME tables, the HTTP date
  format, the file system calls), so that every theorem holds for each behaviour of
  those parts.
\<close>

subsection \<open>Package path\<close>

text \<open>
  Go strings and byte slices are sequences of bytes; both are \<^typ>\<open>char list\<close> here
  (a \<^typ>\<open>char\<close> is one byte).
\<close>

type_synonym byte = char

text \<open>The elements of a path: the text between its slashes.\<close>

fun splitSlash :: "string \<Rightarrow> string list" where
  "splitSlash [] = [[]]"
| "splitSlash (c # cs) =
     (if c = CHR ''/'' then [] # splitSlash cs
      else (case splitSlash cs of [] \<Rightarrow> [[c]] | seg # segs \<Rightarrow> (c # seg) # segs))"

fun joinSlash :: "string list \<Rightarrow> string" where
  "joinSlash [] = []"
| "joinSlash [seg] = seg"
| "joinSlash (seg # segs) = seg @ CHR ''/'' # joinSlash segs"

text \<open>
  \<^verbatim>\<open>path.Clean\<close> reads the path element by element and keeps an output buffer:
  an empty element and \<^verbatim>\<open>.\<close> are skipped; \<^verbatim>\<open>..\<close> removes the last element written
  when there is one that is not itself \<^verbatim>\<open>..\<close>, is dropped at the root of a rooted
  path, and is written otherwise; any other element is written. \<open>out\<close> is the
  buffer, last element first.
\<close>

definition cleanStep :: "bool \<Rightarrow> string list \<Rightarrow> string \<Rightarrow> string list" where
  "cleanStep rooted out seg =
     (if seg = [] \<or> seg = ''.'' then out
      else if seg = ''..'' then
        (case out of
           [] \<Rightarrow> (if rooted then [] else [''..''])
         | e # es \<Rightarrow> (if e = ''..'' then ''..'' # out else es))
      else seg # out)"

definition Clean :: "string \<Rightarrow> string" where
  "Clean path =
     (if path = [] then ''.''
      else let rooted = (hd path = CHR ''/'');
               out = rev (foldl (cleanStep rooted) [] (splitSlash path))
           in if rooted then CHR ''/'' # joinSlash out
              else if out = [] then ''.'' else joinSlash out)"

text \<open>
  \<^verbatim>\<open>path.Join\<close>: empty elements before the first non-empty one are ignored, the
  others are joined with slashes, and the result is cleaned; the join of nothing but
  empty elements is the empty string.
\<close>

fun joinBuf :: "string \<Rightarrow> string list \<Rightarrow> string" where
  "joinBuf buf [] = buf"
| "joinBuf buf (e # es) =
     (if buf \<noteq> [] \<or> e \<noteq> []
      then joinBuf ((if buf \<noteq> [] then buf @ ''/'' else buf) @ e) es
      else joinBuf buf es)"

definition Join :: "string list \<Rightarrow> string" where
  "Join elem = (if concat elem = [] then [] else Clean (joinBuf [] elem))"

definition stripSlashes :: "string \<Rightarrow> string" where
  "stripSlashes path = rev (dropWhile (\<lambda>c. c = CHR ''/'') (rev path))"

definition lastElem :: "string \<Rightarrow> string" where
  "lastElem path = rev (takeWhile (\<lambda>c. c \<noteq> CHR ''/'') (rev path))"

definition Base :: "string \<Rightarrow> string" where
  "Base path =
     (if path = [] then ''.''
      else let e = lastElem (stripSlashes path) in if e = [] then ''/'' else e)"

definition Split :: "string \<Rightarrow> string \<times> string" where
  "Split path = (rev (dropWhile (\<lambda>c. c \<noteq> CHR ''/'') (rev path)), lastElem path)"

definition Dir :: "string \<Rightarrow> string" where
  "Dir path = Clean (fst (Split path))"

definition Ext :: "string \<Rightarrow> string" where
  "Ext path =
     (let e = lastElem path
      in if CHR ''.'' \<in> set e
         then CHR ''.'' # rev (takeWhile (\<lambda>c. c \<noteq> CHR ''.'') (rev e)) else [])"

text \<open>\<^verbatim>\<open>fmt.Sprint\<close> of a length: its decimal digits.\<close>

fun Sprint :: "nat \<Rightarrow> string" where
  "Sprint n =
     (if n < 10 then [''0123456789'' ! n]
      else Sprint (n div 10) @ [''0123456789'' ! (n mod 10)])"

subsection \<open>The standard library and the file system, as parameters\<close>

text \<open>A \<^verbatim>\<open>time.Time\<close> is an instant: nanoseconds since the Unix epoch.\<close>

type_synonym time = int

datatype error =
    OsError string
  | EOF
  | GzipError string
  | Errorf string

text \<open>
  \<open>gzipWrite\<close> is what \<^verbatim>\<open>compressContents\<close> does with package
  \<^verbatim>\<open>compress/gzip\<close>: a writer on a fresh buffer, one \<^verbatim>\<open>Write\<close> of the contents,
  \<^verbatim>\<open>Close\<close>; it gives the buffer and the error of the \<^verbatim>\<open>Write\<close>.
  \<open>parseHTTPTime\<close> is \<^verbatim>\<open>time.Parse(http.TimeFormat, _)\<close>, \<open>formatHTTPTime\<close> is
  \<^verbatim>\<open>Format(http.TimeFormat)\<close>. \<open>redirectURL oldpath url\<close> is the text
  \<^verbatim>\<open>http.Redirect\<close> puts into the \<^verbatim>\<open>Location\<close> header for the target \<open>url\<close> of a
  request for \<open>oldpath\<close> (it makes a relative target absolute and escapes bytes
  outside ASCII), \<open>redirectBody oldpath url code\<close> the short HTML body it writes.
\<close>

record lib =
  gzipWrite :: "byte list \<Rightarrow> byte list \<times> error option"
  TypeByExtension :: "string \<Rightarrow> string"
  DetectContentType :: "byte list \<Rightarrow> string"
  parseHTTPTime :: "string \<Rightarrow> time option"
  formatHTTPTime :: "time \<Rightarrow> string"
  redirectURL :: "string \<Rightarrow> string \<Rightarrow> string"
  redirectBody :: "string \<Rightarrow> string \<Rightarrow> nat \<Rightarrow> byte list"

text \<open>
  \<^verbatim>\<open>os.FileMode\<close> is a 32-bit word; \<^verbatim>\<open>ModeDir\<close> is its bit 31 and
  \<^verbatim>\<open>ModeSymlink\<close> its bit 27.
\<close>

definition ModeDir :: "32 word" where
  "ModeDir = push_bit 31 1"

definition ModeSymlink :: "32 word" where
  "ModeSymlink = push_bit 27 1"

record fileInfo =
  Mode :: "32 word"
  Size :: nat
  ModTime :: time

definition IsDir :: "fileInfo \<Rightarrow> bool" where
  "IsDir fi = (Mode fi AND ModeDir \<noteq> 0)"

text \<open>
  The calls the loader makes on the operating system, each a function of the path:
  \<open>Read name n\<close> is the one \<^verbatim>\<open>Read\<close> into a buffer of \<open>n\<close> bytes on the freshly
  opened file, giving the bytes it stored or its error; \<open>ReadDir\<close> gives the names
  of the entries.
\<close>

record fsys =
  Lstat :: "string \<Rightarrow> error + fileInfo"
  Stat :: "string \<Rightarrow> error + fileInfo"
  Open :: "string \<Rightarrow> error option"
  Read :: "string \<Rightarrow> nat \<Rightarrow> error + byte list"
  ReadDir :: "string \<Rightarrow> error + string list"

subsection \<open>File records\<close>

record siteFile =
  contents :: "byte list"
  mimeType :: string
  isGzipped :: bool
  name :: string
  dir :: string
  lastModified :: time

text \<open>
  \<^verbatim>\<open>compressContents\<close> returns \<^verbatim>\<open>(nil, false)\<close> when the write failed or the buffer
  is not shorter than the contents, and the buffer with \<^verbatim>\<open>true\<close> otherwise.
\<close>

definition compressContents :: "lib \<Rightarrow> byte list \<Rightarrow> byte list \<times> bool" where
  "compressContents L cs =
     (case gzipWrite L cs of
        (buf, Some err) \<Rightarrow> ([], False)
      | (buf, None) \<Rightarrow> if length buf \<ge> length cs then ([], False) else (buf, True))"

text \<open>
  The buffer of \<open>n\<close> zero bytes that \<^verbatim>\<open>make([]byte, size)\<close> allocates, after a
  \<^verbatim>\<open>Read\<close> that stored the bytes \<open>got\<close> at its front. The number of bytes read is
  the \<^verbatim>\<open>_\<close> of \<^verbatim>\<open>_, err = f.Read(file.contents)\<close>: the program drops it.
\<close>

definition fillBuffer :: "nat \<Rightarrow> byte list \<Rightarrow> byte list" where
  "fillBuffer n got = take n (got @ replicate n (CHR 0x00))"

definition readFile :: "lib \<Rightarrow> fsys \<Rightarrow> string \<Rightarrow> nat \<Rightarrow> error + siteFile" where
  "readFile L fs nm n =
     (case Open fs nm of
        Some err \<Rightarrow> Inl err
      | None \<Rightarrow>
         (case Read fs nm n of
            Inl err \<Rightarrow> Inl err
          | Inr got \<Rightarrow>
             (let buf = fillBuffer n got;
                  file = \<lparr> contents = buf,
                           mimeType = TypeByExtension L (Ext nm),
                           isGzipped = False,
                           name = Base nm,
                           dir = Dir nm,
                           lastModified = 0 \<rparr>;
                  file = (if mimeType file = []
                          then file\<lparr> mimeType := DetectContentType L (contents file) \<rparr>
                          else file)
              in (case compressContents L (contents file) of
                    (gzipped, True) \<Rightarrow> Inr (file\<lparr> contents := gzipped, isGzipped := True \<rparr>)
                  | (gzipped, False) \<Rightarrow> Inr file))))"

subsection \<open>The server and its store\<close>

record memoryFileServer =
  serverName :: string
  root :: string
  files :: "string \<rightharpoonup> siteFile"
  index :: string
  error404 :: "siteFile option"
  error404Name :: string
  forceHTTPS :: bool
  addrHeader :: string

definition addFile :: "memoryFileServer \<Rightarrow> siteFile \<Rightarrow> memoryFileServer" where
  "addFile s f =
     (let s1 = (if name f = index s then s\<lparr> files := (files s)(dir f \<mapsto> f) \<rparr> else s)
      in s1\<lparr> files := (files s1)(Join [dir f, name f] \<mapsto> f) \<rparr>)"

definition resolveFile :: "memoryFileServer \<Rightarrow> string \<Rightarrow> siteFile option" where
  "resolveFile s p = files s (Join [root s, p])"

text \<open>
  The \<^verbatim>\<open>for\<close> loop of \<^verbatim>\<open>loadFiles\<close> over the entries of a directory: it stops at
  the first error. \<open>None\<close> is a traversal that has not returned.
\<close>

fun forEntries ::
  "('s \<Rightarrow> 'a \<Rightarrow> (error + 's) option) \<Rightarrow> 's \<Rightarrow> 'a list \<Rightarrow> (error + 's) option" where
  "forEntries f s [] = Some (Inr s)"
| "forEntries f s (p # ps) =
     (case f s p of
        None \<Rightarrow> None
      | Some (Inl err) \<Rightarrow> Some (Inl err)
      | Some (Inr s') \<Rightarrow> forEntries f s' ps)"

text \<open>
  \<^verbatim>\<open>loadFiles\<close> recurses into every directory it finds; the first argument bounds
  the depth of the recursion, and the result is \<open>None\<close> when the bound is reached.
  The server is passed along and returned: the Go method updates its map in place.
\<close>

fun loadFiles ::
  "nat \<Rightarrow> lib \<Rightarrow> fsys \<Rightarrow> memoryFileServer \<Rightarrow> string \<Rightarrow> (error + memoryFileServer) option" where
  "loadFiles 0 L fs s curPath = None"
| "loadFiles (Suc k) L fs s curPath =
     (case Lstat fs curPath of
        Inl err \<Rightarrow> Some (Inl err)
      | Inr fi0 \<Rightarrow>
         (case (if Mode fi0 AND ModeSymlink = ModeSymlink
                then (if IsDir fi0
                      then Inl (Errorf (curPath @ '': directory symbolic links are not allowed''))
                      else Stat fs curPath)
                else Inr fi0) of
            Inl err \<Rightarrow> Some (Inl err)
          | Inr fi \<Rightarrow>
             (if \<not> IsDir fi then
                (case readFile L fs curPath (Size fi) of
                   Inl err \<Rightarrow> Some (Inl err)
                 | Inr f \<Rightarrow> Some (Inr (addFile s (f\<lparr> lastModified := ModTime fi \<rparr>))))
              else
                (case ReadDir fs curPath of
                   Inl err \<Rightarrow> Some (Inl err)
                 | Inr ps \<Rightarrow>
                    forEntries (\<lambda>s' p. loadFiles k L fs s' (Join [curPath, p])) s ps))))"

definition newFileServer ::
  "nat \<Rightarrow> lib \<Rightarrow> fsys \<Rightarrow> string \<Rightarrow> string \<Rightarrow> string \<Rightarrow> string \<Rightarrow> bool \<Rightarrow> string
     \<Rightarrow> (error + memoryFileServer) option" where
  "newFileServer k L fs nm rt idx fourOhFour https addrHdr =
     (let s = \<lparr> serverName = nm, root = rt, files = Map.empty, index = idx,
                error404 = None, error404Name = fourOhFour, forceHTTPS = https,
                addrHeader = addrHdr \<rparr>
      in (case loadFiles k L fs s rt of
            None \<Rightarrow> None
          | Some (Inl err) \<Rightarrow> Some (Inl err)
          | Some (Inr s') \<Rightarrow>
              Some (Inr (s'\<lparr> error404 := files s' (Join [root s', fourOhFour]) \<rparr>))))"

subsection \<open>Requests and the response writer\<close>

text \<open>
  Of a \<^verbatim>\<open>http.Request\<close> the handler reads the method, the path of the URL, the
  request URI, the host and the header. A \<^verbatim>\<open>http.Header\<close> maps a canonical key to
  the list of its values; \<^verbatim>\<open>Get\<close> gives the first value, and the empty string when
  there is none.
\<close>

record request =
  Method :: string
  URLPath :: string
  RequestURI :: string
  Host :: string
  Header :: "string \<Rightarrow> string list"

definition hGet :: "(string \<Rightarrow> string list) \<Rightarrow> string \<Rightarrow> string" where
  "hGet h key = (case h key of [] \<Rightarrow> [] | v # vs \<Rightarrow> v)"

text \<open>
  The \<^verbatim>\<open>http.ResponseWriter\<close> of package \<^verbatim>\<open>net/http\<close>, as far as the handler
  drives it: \<open>respHeader\<close> is the header of the response, \<open>status\<close> the code of the
  first \<^verbatim>\<open>WriteHeader\<close> (\<open>None\<close> before it), \<open>body\<close> the bytes sent after the
  header. The writer knows the method of the request it answers. Headers that the
  server adds by itself when it sends the response (\<^verbatim>\<open>Date\<close>, a \<^verbatim>\<open>Content-Length\<close>
  or \<^verbatim>\<open>Content-Type\<close> the handler did not set) are not part of this model.
\<close>

record responseWriter =
  reqMethod :: string
  respHeader :: "string \<rightharpoonup> string"
  status :: "nat option"
  body :: "byte list"

definition newResponse :: "request \<Rightarrow> responseWriter" where
  "newResponse r = \<lparr> reqMethod = Method r, respHeader = Map.empty, status = None, body = [] \<rparr>"

text \<open>Changes of the header map after \<^verbatim>\<open>WriteHeader\<close> do not reach the response.\<close>

definition hSet :: "string \<Rightarrow> string \<Rightarrow> responseWriter \<Rightarrow> responseWriter" where
  "hSet key v w = (if status w = None then w\<lparr> respHeader := (respHeader w)(key \<mapsto> v) \<rparr> else w)"

definition hDel :: "string \<Rightarrow> responseWriter \<Rightarrow> responseWriter" where
  "hDel key w = (if status w = None then w\<lparr> respHeader := (respHeader w)(key := None) \<rparr> else w)"

text \<open>A second \<^verbatim>\<open>WriteHeader\<close> is ignored.\<close>

definition WriteHeader :: "nat \<Rightarrow> responseWriter \<Rightarrow> responseWriter" where
  "WriteHeader code w = (if status w = None then w\<lparr> status := Some code \<rparr> else w)"

definition bodyAllowedForStatus :: "nat \<Rightarrow> bool" where
  "bodyAllowedForStatus code =
     (if 100 \<le> code \<and> code \<le> 199 then False
      else if code = 204 then False
      else if code = 304 then False
      else True)"

text \<open>
  \<^verbatim>\<open>Write\<close> first writes the header with status 200 if none was written; the bytes
  are refused when the status allows no body and are swallowed when the request is a
  \<^verbatim>\<open>HEAD\<close>.
\<close>

definition Write :: "byte list \<Rightarrow> responseWriter \<Rightarrow> responseWriter" where
  "Write bs w =
     (let w1 = WriteHeader 200 w
      in (case status w1 of
            None \<Rightarrow> w1
          | Some code \<Rightarrow>
              if bodyAllowedForStatus code \<and> reqMethod w1 \<noteq> ''HEAD''
              then w1\<lparr> body := body w1 @ bs \<rparr> else w1))"

text \<open>
  The status the client sees: a handler that returns without \<^verbatim>\<open>WriteHeader\<close> and
  without \<^verbatim>\<open>Write\<close> has answered 200.
\<close>

definition statusCode :: "responseWriter \<Rightarrow> nat" where
  "statusCode w = (case status w of None \<Rightarrow> 200 | Some code \<Rightarrow> code)"

text \<open>
  \<^verbatim>\<open>http.Error\<close> drops a \<^verbatim>\<open>Content-Length\<close>, sets two headers, writes the status and
  prints the message and a newline; \<^verbatim>\<open>http.NotFound\<close> is
  \<^verbatim>\<open>Error(w, "404 page not found", StatusNotFound)\<close>.
\<close>

definition Error :: "responseWriter \<Rightarrow> string \<Rightarrow> nat \<Rightarrow> responseWriter" where
  "Error w msg code =
     Write (msg @ [CHR 0x0A])
       (WriteHeader code
          (hSet ''X-Content-Type-Options'' ''nosniff''
             (hSet ''Content-Type'' ''text/plain; charset=utf-8''
                (hDel ''Content-Length'' w))))"

definition NotFound :: "responseWriter \<Rightarrow> request \<Rightarrow> responseWriter" where
  "NotFound w r = Error w ''404 page not found'' 404"

text \<open>
  \<^verbatim>\<open>http.Redirect\<close> sets \<^verbatim>\<open>Location\<close>, sets a \<^verbatim>\<open>Content-Type\<close> for \<^verbatim>\<open>GET\<close> and
  \<^verbatim>\<open>HEAD\<close> when the handler had set none, writes the status, and writes a short
  body for \<^verbatim>\<open>GET\<close> only.
\<close>

definition Redirect :: "lib \<Rightarrow> responseWriter \<Rightarrow> request \<Rightarrow> string \<Rightarrow> nat \<Rightarrow> responseWriter" where
  "Redirect L w r url code =
     (let hadCT = (respHeader w ''Content-Type'' \<noteq> None);
          w1 = hSet ''Location'' (redirectURL L (URLPath r) url) w;
          w2 = (if \<not> hadCT \<and> (Method r = ''GET'' \<or> Method r = ''HEAD'')
                then hSet ''Content-Type'' ''text/html; charset=utf-8'' w1 else w1);
          w3 = WriteHeader code w2
      in if \<not> hadCT \<and> Method r = ''GET''
         then Write (redirectBody L (URLPath r) url code) w3 else w3)"

subsection \<open>The handler\<close>

definition SetHeaders :: "lib \<Rightarrow> siteFile \<Rightarrow> responseWriter \<Rightarrow> responseWriter" where
  "SetHeaders L f w =
     (let w1 = hSet ''Content-Length'' (Sprint (length (contents f))) w;
          w2 = hSet ''Content-Type'' (mimeType f) w1;
          w3 = hSet ''Last-Modified'' (formatHTTPTime L (lastModified f)) w2
      in if isGzipped f then hSet ''Content-Encoding'' ''gzip'' w3 else w3)"

text \<open>\<^verbatim>\<open>strings.Join\<close> of the three allowed methods with a comma and a space.\<close>

definition serveOptions :: "responseWriter \<Rightarrow> responseWriter" where
  "serveOptions w = WriteHeader 204 (hSet ''Allow'' ''OPTIONS, GET, HEAD'' w)"

definition serve404 :: "lib \<Rightarrow> memoryFileServer \<Rightarrow> responseWriter \<Rightarrow> request \<Rightarrow> responseWriter" where
  "serve404 L s w r =
     (case error404 s of
        None \<Rightarrow> NotFound w r
      | Some f \<Rightarrow>
          (let w1 = WriteHeader 404 (SetHeaders L f w)
           in if Method r \<noteq> ''HEAD'' then Write (contents f) w1 else w1))"

definition redirectIndex :: "lib \<Rightarrow> memoryFileServer \<Rightarrow> responseWriter \<Rightarrow> request \<Rightarrow> responseWriter" where
  "redirectIndex L s w r = Redirect L w r (Dir (URLPath r)) 301"

definition redirectToHTTPS :: "lib \<Rightarrow> memoryFileServer \<Rightarrow> responseWriter \<Rightarrow> request \<Rightarrow> responseWriter" where
  "redirectToHTTPS L s w r =
     (let host = (if serverName s = [] then Host r else serverName s)
      in Redirect L w r (''https://'' @ host @ RequestURI r) 301)"

definition shouldRedirectToHTTPS :: "memoryFileServer \<Rightarrow> request \<Rightarrow> bool" where
  "shouldRedirectToHTTPS s r =
     (if \<not> forceHTTPS s then False else hGet (Header r) ''X-Forwarded-Proto'' = ''http'')"

definition serveFile :: "lib \<Rightarrow> memoryFileServer \<Rightarrow> responseWriter \<Rightarrow> request \<Rightarrow> responseWriter" where
  "serveFile L s w r =
     (case resolveFile s (URLPath r) of
        None \<Rightarrow> serve404 L s w r
      | Some f \<Rightarrow>
          if Base (URLPath r) = index s then redirectIndex L s w r
          else
            (let modSince = hGet (Header r) ''If-Modified-Since'';
                 w1 = SetHeaders L f w;
                 served = (if Method r \<noteq> ''HEAD'' then Write (contents f) w1 else w1)
             in if modSince \<noteq> [] then
                  (case parseHTTPTime L modSince of
                     None \<Rightarrow> WriteHeader 400 w
                   | Some modSinceTime \<Rightarrow>
                       if \<not> modSinceTime < lastModified f
                       then WriteHeader 304 (SetHeaders L f w)
                       else served)
                else served))"

text \<open>
  \<^verbatim>\<open>ServeHTTP\<close> first logs the request (\<^verbatim>\<open>logRequest\<close> prints one line to the process
  log and does nothing to the response; it is left out), then decides.
\<close>

definition ServeHTTP :: "lib \<Rightarrow> memoryFileServer \<Rightarrow> responseWriter \<Rightarrow> request \<Rightarrow> responseWriter" where
  "ServeHTTP L s w r =
     (if shouldRedirectToHTTPS s r then redirectToHTTPS L s w r
      else if Method r = ''OPTIONS'' then serveOptions w
      else if Method r = ''GET'' \<or> Method r = ''HEAD'' then serveFile L s w r
      else WriteHeader 405 w)"

text \<open>The transport calls the handler once per request, on a fresh writer.\<close>

definition respond :: "lib \<Rightarrow> memoryFileServer \<Rightarrow> request \<Rightarrow> responseWriter" where
  "respond L s r = ServeHTTP L s (newResponse r) r"

subsection \<open>Concrete inputs\<close>

text \<open>
  A library for the examples. Its functions stand in for the Go library at the few
  arguments the examples reach: the compressor has gzip's fixed cost of 18 bytes of
  header and trailer and shortens runs of equal bytes; the two dates are the first
  seconds of the Unix epoch; the target of a redirect is an absolute path or URL in
  ASCII, which \<^verbatim>\<open>http.Redirect\<close> leaves as it is.
\<close>

definition exLib :: lib where
  "exLib =
     \<lparr> gzipWrite = (\<lambda>cs. (replicate 18 (CHR 0x00) @ remdups_adj cs, None)),
       TypeByExtension =
         (\<lambda>e. if e = ''.html'' then ''text/html; charset=utf-8''
              else if e = ''.txt'' then ''text/plain; charset=utf-8'' else []),
       DetectContentType = (\<lambda>bs. ''application/octet-stream''),
       parseHTTPTime =
         (\<lambda>v. if v = ''Thu, 01 Jan 1970 00:00:00 GMT'' then Some 0
              else if v = ''Thu, 01 Jan 1970 00:00:10 GMT'' then Some 10000000000
              else None),
       formatHTTPTime =
         (\<lambda>t. if t = 10000000000 then ''Thu, 01 Jan 1970 00:00:10 GMT''
              else ''Thu, 01 Jan 1970 00:00:00 GMT''),
       redirectURL = (\<lambda>oldpath url. url),
       redirectBody = (\<lambda>oldpath url code. ''<a href='' @ url @ ''>Moved Permanently</a>.'') \<rparr>"

text \<open>
  What \<^verbatim>\<open>Lstat\<close> reports: a regular file with mode 0644, a directory with
  \<^verbatim>\<open>ModeDir\<close> and 0755, a symbolic link with \<^verbatim>\<open>ModeSymlink\<close> and 0777. The type
  bits of a mode exclude each other: the mode of a symbolic link has no \<^verbatim>\<open>ModeDir\<close>,
  whatever the link points to.
\<close>

definition regularInfo :: "nat \<Rightarrow> fileInfo" where
  "regularInfo n = \<lparr> Mode = 0x1A4, Size = n, ModTime = 10000000000 \<rparr>"

definition directoryInfo :: fileInfo where
  "directoryInfo = \<lparr> Mode = ModeDir OR 0x1ED, Size = 4096, ModTime = 10000000000 \<rparr>"

definition symlinkInfo :: "nat \<Rightarrow> fileInfo" where
  "symlinkInfo n = \<lparr> Mode = ModeSymlink OR 0x1FF, Size = n, ModTime = 10000000000 \<rparr>"

definition noEntry :: error where
  "noEntry = OsError ''no such file or directory''"

text \<open>
  A file system without symbolic links that stands still while it is read, given by
  the entries of its directories and the bytes of its regular files.
\<close>

definition plainFs :: "(string \<times> string list) list \<Rightarrow> (string \<times> byte list) list \<Rightarrow> fsys" where
  "plainFs dirs regs =
     (let info = (\<lambda>p. case map_of dirs p of
                         Some ps \<Rightarrow> Inr directoryInfo
                       | None \<Rightarrow> (case map_of regs p of
                                    Some bs \<Rightarrow> Inr (regularInfo (length bs))
                                  | None \<Rightarrow> Inl noEntry))
      in \<lparr> Lstat = info,
           Stat = info,
           Open = (\<lambda>p. case info p of Inl err \<Rightarrow> Some err | Inr fi \<Rightarrow> None),
           Read = (\<lambda>p n. case map_of regs p of
                            None \<Rightarrow> Inl (OsError ''is a directory'')
                          | Some bs \<Rightarrow> if 0 < n \<and> bs = [] then Inl EOF else Inr (take n bs)),
           ReadDir = (\<lambda>p. case map_of dirs p of
                            None \<Rightarrow> Inl (OsError ''not a directory'')
                          | Some ps \<Rightarrow> Inr ps) \<rparr>)"

text \<open>
  A small site: two pages, a text file, a file of forty equal bytes, a page for
  errors.
\<close>

definition siteFs :: fsys where
  "siteFs =
     plainFs
       [(''/site'', [''big.txt'', ''docs'', ''hello.txt'', ''index.html'', ''missing.html'']),
        (''/site/docs'', [''index.html''])]
       [(''/site/big.txt'', replicate 40 (CHR ''a'')),
        (''/site/docs/index.html'', ''<h1>docs</h1>''),
        (''/site/hello.txt'', ''hi''),
        (''/site/index.html'', ''<h1>home</h1>''),
        (''/site/missing.html'', ''not found'')]"

text \<open>
  A site whose entry \<^verbatim>\<open>link\<close> is a symbolic link to a directory that holds
  \<^verbatim>\<open>a.txt\<close>: \<^verbatim>\<open>Lstat\<close> of the entry reports the link, every other call follows it.
\<close>

definition linkFs :: fsys where
  "linkFs =
     (let fs = plainFs [(''/site'', [''link'']), (''/site/link'', [''a.txt''])]
                       [(''/site/link/a.txt'', ''hi'')]
      in fs\<lparr> Lstat := (\<lambda>p. if p = ''/site/link'' then Inr (symlinkInfo 5) else Lstat fs p) \<rparr>)"



text \<open>The servers these file systems load into.\<close>

definition emptyServer ::
  "string \<Rightarrow> string \<Rightarrow> string \<Rightarrow> string \<Rightarrow> bool \<Rightarrow> string \<Rightarrow> memoryFileServer" where
  "emptyServer nm rt idx fourOhFour https addrHdr =
     \<lparr> serverName = nm, root = rt, files = Map.empty, index = idx,
       error404 = None, error404Name = fourOhFour, forceHTTPS = https,
       addrHeader = addrHdr \<rparr>"

definition page :: "string \<Rightarrow> string \<Rightarrow> string \<Rightarrow> byte list \<Rightarrow> siteFile" where
  "page d n ty bs =
     \<lparr> contents = bs, mimeType = ty, isGzipped = False, name = n, dir = d,
       lastModified = 10000000000 \<rparr>"

definition bigFile :: siteFile where
  "bigFile =
     \<lparr> contents = replicate 18 (CHR 0x00) @ ''a'', mimeType = ''text/plain; charset=utf-8'',
       isGzipped = True, name = ''big.txt'', dir = ''/site'', lastModified = 10000000000 \<rparr>"

definition docsPage :: siteFile where
  "docsPage = page ''/site/docs'' ''index.html'' ''text/html; charset=utf-8'' ''<h1>docs</h1>''"

definition helloFile :: siteFile where
  "helloFile = page ''/site'' ''hello.txt'' ''text/plain; charset=utf-8'' ''hi''"

definition homePage :: siteFile where
  "homePage = page ''/site'' ''index.html'' ''text/html; charset=utf-8'' ''<h1>home</h1>''"

definition missingPage :: siteFile where
  "missingPage = page ''/site'' ''missing.html'' ''text/html; charset=utf-8'' ''not found''"

definition siteFiles :: "string \<Rightarrow> bool \<Rightarrow> memoryFileServer" where
  "siteFiles fourOhFour https =
     addFile (addFile (addFile (addFile (addFile
       (emptyServer [] ''/site'' ''index.html'' fourOhFour https [])
       bigFile) docsPage) helloFile) homePage) missingPage"

text \<open>The site with \<^verbatim>\<open>-404 missing.html\<close>, and the site started without \<^verbatim>\<open>-404\<close>.\<close>

definition siteServer :: memoryFileServer where
  "siteServer = (siteFiles ''missing.html'' False)\<lparr> error404 := Some missingPage \<rparr>"

definition defaultServer :: memoryFileServer where
  "defaultServer = (siteFiles [] False)\<lparr> error404 := Some homePage \<rparr>"

definition httpsServer :: memoryFileServer where
  "httpsServer = (siteFiles ''missing.html'' True)\<lparr> error404 := Some missingPage \<rparr>"

definition linkServer :: memoryFileServer where
  "linkServer =
     addFile (emptyServer [] ''/site'' ''index.html'' [] False [])
       (page ''/site/link'' ''a.txt'' ''text/plain; charset=utf-8'' ''hi'')"


definition innerPage :: siteFile where
  "innerPage =
     page ''/site/index.html'' ''index.html'' ''text/html; charset=utf-8'' ''<h1>inner</h1>''"

definition nestedServer :: memoryFileServer where
  "nestedServer = addFile (emptyServer [] ''/site'' ''index.html'' [] False []) innerPage"

text \<open>
  Requests: a method and a path, without headers; the same with an
  \<^verbatim>\<open>If-Modified-Since\<close> line; the same with \<^verbatim>\<open>X-Forwarded-Proto: http\<close>.
\<close>

definition request0 :: "string \<Rightarrow> string \<Rightarrow> request" where
  "request0 m p =
     \<lparr> Method = m, URLPath = p, RequestURI = p, Host = ''example.com'',
       Header = (\<lambda>key. []) \<rparr>"

definition requestSince :: "string \<Rightarrow> string \<Rightarrow> string \<Rightarrow> request" where
  "requestSince m p v =
     \<lparr> Method = m, URLPath = p, RequestURI = p, Host = ''example.com'',
       Header = (\<lambda>key. if key = ''If-Modified-Since'' then [v] else []) \<rparr>"

definition requestForwarded :: "string \<Rightarrow> string \<Rightarrow> request" where
  "requestForwarded m p =
     \<lparr> Method = m, URLPath = p, RequestURI = p, Host = ''example.com'',
       Header = (\<lambda>key. if key = ''X-Forwarded-Proto'' then [''http''] else []) \<rparr>"

subsection \<open>Notions of the specification\<close>

text \<open>
  The headers of an asset, as the specification lists them: \<^verbatim>\<open>Content-Length\<close>,
  \<^verbatim>\<open>Content-Type\<close>, \<^verbatim>\<open>Last-Modified\<close>, and \<^verbatim>\<open>Content-Encoding\<close> if the asset is
  stored compressed.
\<close>

definition assetHeaders :: "lib \<Rightarrow> siteFile \<Rightarrow> (string \<rightharpoonup> string)" where
  "assetHeaders L f =
     (\<lambda>key. if key = ''Content-Encoding'' then (if isGzipped f then Some ''gzip'' else None)
            else if key = ''Last-Modified'' then Some (formatHTTPTime L (lastModified f))
            else if key = ''Content-Type'' then Some (mimeType f)
            else if key = ''Content-Length'' then Some (Sprint (length (contents f)))
            else None)"

text \<open>The generic answer of \<^verbatim>\<open>http.NotFound\<close>: its two headers.\<close>

definition notFoundHeaders :: "string \<rightharpoonup> string" where
  "notFoundHeaders =
     [''Content-Type'' \<mapsto> ''text/plain; charset=utf-8'',
      ''X-Content-Type-Options'' \<mapsto> ''nosniff'']"

text \<open>
  A name that a directory entry can have: not empty, without a slash, and neither
  \<^verbatim>\<open>.\<close> nor \<^verbatim>\<open>..\<close>.
\<close>

definition validName :: "string \<Rightarrow> bool" where
  "validName e = (e \<noteq> [] \<and> CHR ''/'' \<notin> set e \<and> e \<noteq> ''.'' \<and> e \<noteq> ''..'')"

subsection \<open>The normal form of a path\<close>

text \<open>
  The result of \<^verbatim>\<open>Clean\<close> written from its buffer: the elements joined by slashes,
  after a slash when the path is rooted, and \<^verbatim>\<open>.\<close> for the empty relative path.
\<close>

definition render :: "bool \<Rightarrow> string list \<Rightarrow> string" where
  "render rooted out =
     (if rooted then CHR ''/'' # joinSlash out
      else if out = [] then ''.'' else joinSlash out)"

text \<open>The buffer \<^verbatim>\<open>Clean\<close> ends with, last element first.\<close>

definition cleanStack :: "string \<Rightarrow> string list" where
  "cleanStack path = foldl (cleanStep (hd path = CHR ''/'')) [] (splitSlash path)"

text \<open>
  The buffer of \<^verbatim>\<open>Clean\<close> always holds names of entries above a run of \<^verbatim>\<open>..\<close>, and
  no \<^verbatim>\<open>..\<close> at all when the path is rooted.
\<close>

definition normalStack :: "bool \<Rightarrow> string list \<Rightarrow> bool" where
  "normalStack rooted st =
     (\<exists>ys n. st = rev ys @ replicate n ''..'' \<and> (\<forall>e \<in> set ys. validName e)
        \<and> (if rooted then n = 0 else True))"

section \<open>Properties\<close>

lemma Sprint_digit: "n < 10 \<Longrightarrow> Sprint n = [''0123456789'' ! n]"
  by simp

declare loadFiles.simps [simp del]

subsection \<open>The loader, step by step\<close>

lemma ModeDir_numeral: "ModeDir = 0x80000000"
  by (simp add: ModeDir_def)

lemma ModeSymlink_numeral: "ModeSymlink = 0x8000000"
  by (simp add: ModeSymlink_def)

lemma loadFiles_regular:
  assumes "Lstat fs p = Inr fi" and "Mode fi AND ModeSymlink \<noteq> ModeSymlink" and "\<not> IsDir fi"
    and "readFile L fs p (Size fi) = Inr f"
  shows "loadFiles (Suc k) L fs s p = Some (Inr (addFile s (f\<lparr> lastModified := ModTime fi \<rparr>)))"
  using assms by (simp add: loadFiles.simps)

lemma loadFiles_directory:
  assumes "Lstat fs p = Inr fi" and "Mode fi AND ModeSymlink \<noteq> ModeSymlink" and "IsDir fi"
    and "ReadDir fs p = Inr ps"
  shows "loadFiles (Suc k) L fs s p = forEntries (\<lambda>s' e. loadFiles k L fs s' (Join [p, e])) s ps"
  using assms by (simp add: loadFiles.simps)

lemma loadFiles_symlink:
  assumes "Lstat fs p = Inr fi0" and "Mode fi0 AND ModeSymlink = ModeSymlink" and "\<not> IsDir fi0"
    and "Stat fs p = Inr fi" and "IsDir fi" and "ReadDir fs p = Inr ps"
  shows "loadFiles (Suc k) L fs s p = forEntries (\<lambda>s' e. loadFiles k L fs s' (Join [p, e])) s ps"
  using assms by (simp add: loadFiles.simps)

lemma mode_facts:
  "IsDir directoryInfo" "\<not> IsDir (regularInfo n)" "\<not> IsDir (symlinkInfo n)"
  "Mode directoryInfo AND ModeSymlink \<noteq> ModeSymlink"
  "Mode (regularInfo n) AND ModeSymlink \<noteq> ModeSymlink"
  "Mode (symlinkInfo n) AND ModeSymlink = ModeSymlink"
  unfolding IsDir_def directoryInfo_def regularInfo_def symlinkInfo_def
    ModeDir_numeral ModeSymlink_numeral
  by simp_all

lemma info_fields:
  "Size (regularInfo n) = n" "ModTime (regularInfo n) = 10000000000"
  by (simp_all add: regularInfo_def)

lemma plainFs_calls:
  "Lstat (plainFs dirs regs) p =
     (case map_of dirs p of
        Some ps \<Rightarrow> Inr directoryInfo
      | None \<Rightarrow> (case map_of regs p of
                   Some bs \<Rightarrow> Inr (regularInfo (length bs)) | None \<Rightarrow> Inl noEntry))"
  "Stat (plainFs dirs regs) p = Lstat (plainFs dirs regs) p"
  "Open (plainFs dirs regs) p =
     (case Lstat (plainFs dirs regs) p of Inl err \<Rightarrow> Some err | Inr fi \<Rightarrow> None)"
  "Read (plainFs dirs regs) p n =
     (case map_of regs p of
        None \<Rightarrow> Inl (OsError ''is a directory'')
      | Some bs \<Rightarrow> if 0 < n \<and> bs = [] then Inl EOF else Inr (take n bs))"
  "ReadDir (plainFs dirs regs) p =
     (case map_of dirs p of None \<Rightarrow> Inl (OsError ''not a directory'') | Some ps \<Rightarrow> Inr ps)"
  by (simp_all add: plainFs_def Let_def)

lemma plainFs_directory:
  assumes "map_of dirs p = Some ps"
  shows "loadFiles (Suc k) L (plainFs dirs regs) s p =
           forEntries (\<lambda>s' e. loadFiles k L (plainFs dirs regs) s' (Join [p, e])) s ps"
  by (rule loadFiles_directory [where fi = directoryInfo])
     (simp_all add: plainFs_calls assms mode_facts)

lemma plainFs_readFile:
  assumes "map_of dirs p = None" and "map_of regs p = Some bs" and "bs \<noteq> []"
  shows "readFile L (plainFs dirs regs) p (length bs) =
           Inr \<lparr> contents = (if snd (compressContents L bs) then fst (compressContents L bs) else bs),
                 mimeType = (if TypeByExtension L (Ext p) = [] then DetectContentType L bs
                             else TypeByExtension L (Ext p)),
                 isGzipped = snd (compressContents L bs),
                 name = Base p, dir = Dir p, lastModified = 0 \<rparr>"
proof -
  have "Open (plainFs dirs regs) p = None" "Read (plainFs dirs regs) p (length bs) = Inr bs"
    using assms by (simp_all add: plainFs_calls)
  moreover have "fillBuffer (length bs) bs = bs"
    by (simp add: fillBuffer_def)
  ultimately show ?thesis
    by (cases "compressContents L bs") (simp add: readFile_def Let_def)
qed

lemma plainFs_regular:
  assumes "map_of dirs p = None" and "map_of regs p = Some bs" and "bs \<noteq> []"
  shows "loadFiles (Suc k) L (plainFs dirs regs) s p =
           Some (Inr (addFile s
             \<lparr> contents = (if snd (compressContents L bs) then fst (compressContents L bs) else bs),
               mimeType = (if TypeByExtension L (Ext p) = [] then DetectContentType L bs
                           else TypeByExtension L (Ext p)),
               isGzipped = snd (compressContents L bs),
               name = Base p, dir = Dir p, lastModified = 10000000000 \<rparr>))"
proof -
  have "Lstat (plainFs dirs regs) p = Inr (regularInfo (length bs))"
    using assms by (simp add: plainFs_calls)
  from loadFiles_regular [OF this mode_facts(5) mode_facts(2), of L, unfolded info_fields,
      OF plainFs_readFile [OF assms]]
  show ?thesis by simp
qed

subsection \<open>Loading the concrete file systems\<close>

lemma site_paths:
  "Join [''/site'', ''big.txt''] = ''/site/big.txt''"
  "Join [''/site'', ''docs''] = ''/site/docs''"
  "Join [''/site'', ''hello.txt''] = ''/site/hello.txt''"
  "Join [''/site'', ''index.html''] = ''/site/index.html''"
  "Join [''/site'', ''missing.html''] = ''/site/missing.html''"
  "Join [''/site/docs'', ''index.html''] = ''/site/docs/index.html''"
  "Join [''/site'', []] = ''/site''"
  "Join [''/site'', ''a.txt''] = ''/site/a.txt''"
  "Join [''/site'', ''link''] = ''/site/link''"
  "Join [''/site/link'', ''a.txt''] = ''/site/link/a.txt''"
  "Join [''/site/index.html'', ''index.html''] = ''/site/index.html/index.html''"
  by code_simp+

lemma site_parts:
  "Base ''/site/big.txt'' = ''big.txt''" "Dir ''/site/big.txt'' = ''/site''"
  "Ext ''/site/big.txt'' = ''.txt''"
  "Base ''/site/hello.txt'' = ''hello.txt''" "Dir ''/site/hello.txt'' = ''/site''"
  "Ext ''/site/hello.txt'' = ''.txt''"
  "Base ''/site/index.html'' = ''index.html''" "Dir ''/site/index.html'' = ''/site''"
  "Ext ''/site/index.html'' = ''.html''"
  "Base ''/site/missing.html'' = ''missing.html''" "Dir ''/site/missing.html'' = ''/site''"
  "Ext ''/site/missing.html'' = ''.html''"
  "Base ''/site/docs/index.html'' = ''index.html''" "Dir ''/site/docs/index.html'' = ''/site/docs''"
  "Ext ''/site/docs/index.html'' = ''.html''"
  "Base ''/site/a.txt'' = ''a.txt''" "Dir ''/site/a.txt'' = ''/site''"
  "Ext ''/site/a.txt'' = ''.txt''"
  "Base ''/site/link/a.txt'' = ''a.txt''" "Dir ''/site/link/a.txt'' = ''/site/link''"
  "Ext ''/site/link/a.txt'' = ''.txt''"
  "Base ''/site/index.html/index.html'' = ''index.html''"
  "Dir ''/site/index.html/index.html'' = ''/site/index.html''"
  "Ext ''/site/index.html/index.html'' = ''.html''"
  by code_simp+

lemma exLib_compress:
  "compressContents exLib (replicate 40 (CHR ''a'')) = (replicate 18 (CHR 0x00) @ ''a'', True)"
  "compressContents exLib ''<h1>docs</h1>'' = ([], False)"
  "compressContents exLib ''hi'' = ([], False)"
  "compressContents exLib ''<h1>home</h1>'' = ([], False)"
  "compressContents exLib ''not found'' = ([], False)"
  "compressContents exLib ''<h1>inner</h1>'' = ([], False)"
  by code_simp+

lemma exLib_types:
  "TypeByExtension exLib ''.txt'' = ''text/plain; charset=utf-8''"
  "TypeByExtension exLib ''.html'' = ''text/html; charset=utf-8''"
  by (simp_all add: exLib_def)

lemma forty_bytes: "replicate 40 (CHR ''a'') \<noteq> []" "length (replicate 40 (CHR ''a'')) = 40"
  by simp_all

lemma siteFs_big:
  "loadFiles (Suc k) exLib siteFs s ''/site/big.txt'' = Some (Inr (addFile s bigFile))"
  unfolding siteFs_def
  by (subst plainFs_regular [where bs = "replicate 40 (CHR ''a'')"])
     (simp_all only: map_of.simps fst_conv snd_conv forty_bytes exLib_compress exLib_types
        site_parts bigFile_def, simp_all)

lemma siteFs_docs_index:
  "loadFiles (Suc k) exLib siteFs s ''/site/docs/index.html'' = Some (Inr (addFile s docsPage))"
  unfolding siteFs_def
  by (subst plainFs_regular [where bs = "''<h1>docs</h1>''"])
     (simp_all add: exLib_compress exLib_types site_parts docsPage_def page_def)

lemma siteFs_hello:
  "loadFiles (Suc k) exLib siteFs s ''/site/hello.txt'' = Some (Inr (addFile s helloFile))"
  unfolding siteFs_def
  by (subst plainFs_regular [where bs = "''hi''"])
     (simp_all add: exLib_compress exLib_types site_parts helloFile_def page_def)

lemma siteFs_index:
  "loadFiles (Suc k) exLib siteFs s ''/site/index.html'' = Some (Inr (addFile s homePage))"
  unfolding siteFs_def
  by (subst plainFs_regular [where bs = "''<h1>home</h1>''"])
     (simp_all add: exLib_compress exLib_types site_parts homePage_def page_def)

lemma siteFs_missing:
  "loadFiles (Suc k) exLib siteFs s ''/site/missing.html'' = Some (Inr (addFile s missingPage))"
  unfolding siteFs_def
  by (subst plainFs_regular [where bs = "''not found''"])
     (simp_all add: exLib_compress exLib_types site_parts missingPage_def page_def)

lemma siteFs_docs:
  "loadFiles (Suc (Suc k)) exLib siteFs s ''/site/docs'' = Some (Inr (addFile s docsPage))"
proof -
  have "loadFiles (Suc (Suc k)) exLib siteFs s ''/site/docs'' =
          forEntries (\<lambda>s' e. loadFiles (Suc k) exLib siteFs s' (Join [''/site/docs'', e])) s
            [''index.html'']"
    unfolding siteFs_def by (rule plainFs_directory) simp
  then show ?thesis
    by (simp add: site_paths siteFs_docs_index)
qed

lemma siteFs_root:
  "loadFiles (Suc (Suc (Suc k))) exLib siteFs s ''/site'' =
     Some (Inr (addFile (addFile (addFile (addFile (addFile s bigFile) docsPage) helloFile)
                  homePage) missingPage))"
proof -
  have "loadFiles (Suc (Suc (Suc k))) exLib siteFs s ''/site'' =
          forEntries (\<lambda>s' e. loadFiles (Suc (Suc k)) exLib siteFs s' (Join [''/site'', e])) s
            [''big.txt'', ''docs'', ''hello.txt'', ''index.html'', ''missing.html'']"
    unfolding siteFs_def by (rule plainFs_directory) simp
  then show ?thesis
    by (simp add: site_paths siteFs_big siteFs_docs siteFs_hello siteFs_index siteFs_missing)
qed

lemma addFile_fields [simp]:
  "root (addFile s f) = root s"
  "index (addFile s f) = index s"
  "serverName (addFile s f) = serverName s"
  "forceHTTPS (addFile s f) = forceHTTPS s"
  "error404 (addFile s f) = error404 s"
  "error404Name (addFile s f) = error404Name s"
  "addrHeader (addFile s f) = addrHeader s"
  by (simp_all add: addFile_def)

lemma addFile_files:
  "files (addFile s f) key =
     (if key = Join [dir f, name f] then Some f
      else if name f = index s \<and> key = dir f then Some f
      else files s key)"
  by (simp add: addFile_def)

lemma page_fields [simp]:
  "contents (page d n ty bs) = bs" "mimeType (page d n ty bs) = ty"
  "isGzipped (page d n ty bs) = False" "name (page d n ty bs) = n" "dir (page d n ty bs) = d"
  "lastModified (page d n ty bs) = 10000000000"
  by (simp_all add: page_def)

lemma emptyServer_fields [simp]:
  "serverName (emptyServer nm rt idx fourOhFour https addrHdr) = nm"
  "root (emptyServer nm rt idx fourOhFour https addrHdr) = rt"
  "files (emptyServer nm rt idx fourOhFour https addrHdr) = Map.empty"
  "index (emptyServer nm rt idx fourOhFour https addrHdr) = idx"
  "error404 (emptyServer nm rt idx fourOhFour https addrHdr) = None"
  "error404Name (emptyServer nm rt idx fourOhFour https addrHdr) = fourOhFour"
  "forceHTTPS (emptyServer nm rt idx fourOhFour https addrHdr) = https"
  "addrHeader (emptyServer nm rt idx fourOhFour https addrHdr) = addrHdr"
  by (simp_all add: emptyServer_def)

lemma bigFile_fields [simp]:
  "name bigFile = ''big.txt''" "dir bigFile = ''/site''" "isGzipped bigFile"
  "contents bigFile = replicate 18 (CHR 0x00) @ ''a''"
  "mimeType bigFile = ''text/plain; charset=utf-8''" "lastModified bigFile = 10000000000"
  by (simp_all add: bigFile_def)

lemma siteFiles_fields [simp]:
  "root (siteFiles fourOhFour https) = ''/site''"
  "index (siteFiles fourOhFour https) = ''index.html''"
  "serverName (siteFiles fourOhFour https) = []"
  "forceHTTPS (siteFiles fourOhFour https) = https"
  "error404Name (siteFiles fourOhFour https) = fourOhFour"
  by (simp_all add: siteFiles_def)

lemma siteFiles_store:
  "files (siteFiles fourOhFour https) ''/site'' = Some homePage"
  "files (siteFiles fourOhFour https) ''/site/index.html'' = Some homePage"
  "files (siteFiles fourOhFour https) ''/site/docs'' = Some docsPage"
  "files (siteFiles fourOhFour https) ''/site/docs/index.html'' = Some docsPage"
  "files (siteFiles fourOhFour https) ''/site/hello.txt'' = Some helloFile"
  "files (siteFiles fourOhFour https) ''/site/big.txt'' = Some bigFile"
  "files (siteFiles fourOhFour https) ''/site/missing.html'' = Some missingPage"
  "files (siteFiles fourOhFour https) ''/site/nope'' = None"
  by (simp_all add: siteFiles_def addFile_files site_paths docsPage_def helloFile_def
        homePage_def missingPage_def)

lemma siteFs_newFileServer:
  "newFileServer 3 exLib siteFs [] ''/site'' ''index.html'' fourOhFour https [] =
     Some (Inr ((siteFiles fourOhFour https)
       \<lparr> error404 := files (siteFiles fourOhFour https) (Join [''/site'', fourOhFour]) \<rparr>))"
proof -
  have "loadFiles 3 exLib siteFs (emptyServer [] ''/site'' ''index.html'' fourOhFour https [])
          ''/site'' = Some (Inr (siteFiles fourOhFour https))"
    by (simp add: numeral_3_eq_3 siteFs_root siteFiles_def)
  then show ?thesis
    by (simp add: newFileServer_def emptyServer_def [symmetric])
qed

lemma siteFs_loaded:
  "newFileServer 3 exLib siteFs [] ''/site'' ''index.html'' ''missing.html'' False [] =
     Some (Inr siteServer)"
  "newFileServer 3 exLib siteFs [] ''/site'' ''index.html'' [] False [] =
     Some (Inr defaultServer)"
  "newFileServer 3 exLib siteFs [] ''/site'' ''index.html'' ''missing.html'' True [] =
     Some (Inr httpsServer)"
  by (simp_all add: siteFs_newFileServer site_paths siteFiles_store siteServer_def
        defaultServer_def httpsServer_def)

lemma linkFs_calls:
  "Lstat linkFs ''/site'' = Inr directoryInfo"
  "Lstat linkFs ''/site/link'' = Inr (symlinkInfo 5)"
  "Stat linkFs ''/site/link'' = Inr directoryInfo"
  "Lstat linkFs ''/site/link/a.txt'' = Inr (regularInfo 2)"
  "ReadDir linkFs ''/site'' = Inr [''link'']"
  "ReadDir linkFs ''/site/link'' = Inr [''a.txt'']"
  "Open linkFs ''/site/link/a.txt'' = None"
  "Read linkFs ''/site/link/a.txt'' 2 = Inr ''hi''"
  by (simp_all add: linkFs_def plainFs_calls Let_def numeral_2_eq_2)

lemma linkFs_readFile:
  "readFile exLib linkFs ''/site/link/a.txt'' 2 =
     Inr ((page ''/site/link'' ''a.txt'' ''text/plain; charset=utf-8'' ''hi'')\<lparr> lastModified := 0 \<rparr>)"
  by (simp add: readFile_def linkFs_calls site_parts exLib_types exLib_compress fillBuffer_def
        page_def)

lemma linkFs_root:
  "loadFiles (Suc (Suc (Suc k))) exLib linkFs s ''/site'' =
     Some (Inr (addFile s (page ''/site/link'' ''a.txt'' ''text/plain; charset=utf-8'' ''hi'')))"
proof -
  have leaf: "loadFiles (Suc k) exLib linkFs s' ''/site/link/a.txt'' =
      Some (Inr (addFile s' (page ''/site/link'' ''a.txt'' ''text/plain; charset=utf-8'' ''hi'')))"
    for s'
    using loadFiles_regular [OF linkFs_calls(4) mode_facts(5) mode_facts(2), of exLib _ k s']
    by (simp add: info_fields linkFs_readFile page_def)
  have link: "loadFiles (Suc (Suc k)) exLib linkFs s' ''/site/link'' =
      Some (Inr (addFile s' (page ''/site/link'' ''a.txt'' ''text/plain; charset=utf-8'' ''hi'')))"
    for s'
    using loadFiles_symlink [OF linkFs_calls(2) mode_facts(6) mode_facts(3) linkFs_calls(3)
        mode_facts(1) linkFs_calls(6), of "Suc k" exLib s']
    by (simp add: site_paths leaf)
  show ?thesis
    using loadFiles_directory [OF linkFs_calls(1) mode_facts(4) mode_facts(1) linkFs_calls(5),
        of "Suc (Suc k)" exLib s]
    by (simp add: site_paths link)
qed

lemma linkFs_loaded:
  "newFileServer 3 exLib linkFs [] ''/site'' ''index.html'' [] False [] = Some (Inr linkServer)"
proof -
  have "loadFiles 3 exLib linkFs (emptyServer [] ''/site'' ''index.html'' [] False []) ''/site'' =
          Some (Inr linkServer)"
    by (simp add: numeral_3_eq_3 linkFs_root linkServer_def)
  moreover have "files linkServer ''/site'' = None"
    by (simp add: linkServer_def addFile_files site_paths)
  moreover have "linkServer\<lparr> error404 := None \<rparr> = linkServer"
    by (simp add: linkServer_def addFile_def emptyServer_def)
  moreover have "root linkServer = ''/site''"
    by (simp add: linkServer_def)
  ultimately show ?thesis
    by (simp add: newFileServer_def emptyServer_def [symmetric] site_paths linkServer_def [symmetric])
qed









subsection \<open>The response writer\<close>

lemma newResponse_fields [simp]:
  "reqMethod (newResponse r) = Method r" "respHeader (newResponse r) = Map.empty"
  "status (newResponse r) = None" "body (newResponse r) = []"
  by (simp_all add: newResponse_def)

lemma writer_fields [simp]:
  "reqMethod (hSet key v w) = reqMethod w" "status (hSet key v w) = status w"
  "body (hSet key v w) = body w"
  "reqMethod (WriteHeader code w) = reqMethod w" "body (WriteHeader code w) = body w"
  "respHeader (WriteHeader code w) = respHeader w"
  "reqMethod (Write bs w) = reqMethod w" "respHeader (Write bs w) = respHeader w"
  by (simp_all add: hSet_def WriteHeader_def Write_def Let_def split: option.splits)

lemma hSet_header [simp]:
  "status w = None \<Longrightarrow> respHeader (hSet key v w) = (respHeader w)(key \<mapsto> v)"
  by (simp add: hSet_def)

lemma WriteHeader_status [simp]:
  "status w = None \<Longrightarrow> status (WriteHeader code w) = Some code"
  by (simp add: WriteHeader_def)

lemma Write_written:
  "status w = Some code \<Longrightarrow>
     Write bs w = (if bodyAllowedForStatus code \<and> reqMethod w \<noteq> ''HEAD''
                   then w\<lparr> body := body w @ bs \<rparr> else w)"
  by (simp add: Write_def WriteHeader_def)


lemma SetHeaders_fields [simp]:
  "reqMethod (SetHeaders L f w) = reqMethod w" "status (SetHeaders L f w) = status w"
  "body (SetHeaders L f w) = body w"
  by (simp_all add: SetHeaders_def Let_def)

lemma SetHeaders_fresh [simp]:
  "respHeader (SetHeaders L f (newResponse r)) = assetHeaders L f"
  by (rule ext) (simp add: SetHeaders_def assetHeaders_def Let_def)

lemma NotFound_fresh:
  "statusCode (NotFound (newResponse r) r) = 404"
  "respHeader (NotFound (newResponse r) r) = notFoundHeaders"
  "body (NotFound (newResponse r) r) =
     (if Method r = ''HEAD'' then [] else ''404 page not found'' @ [CHR 0x0A])"
  by (simp_all add: NotFound_def Error_def notFoundHeaders_def hDel_def Write_written
        bodyAllowedForStatus_def statusCode_def)

lemma serve404_fallback:
  assumes "error404 s = Some f"
  shows "statusCode (serve404 L s (newResponse r) r) = 404"
    and "respHeader (serve404 L s (newResponse r) r) = assetHeaders L f"
    and "body (serve404 L s (newResponse r) r) = (if Method r = ''HEAD'' then [] else contents f)"
  using assms
  by (simp_all add: serve404_def Let_def Write_written bodyAllowedForStatus_def statusCode_def)

lemma serve404_generic:
  assumes "error404 s = None"
  shows "serve404 L s w r = NotFound w r"
  using assms by (simp add: serve404_def)

lemma Redirect_fresh:
  "statusCode (Redirect L (newResponse r) r url 301) = 301"
  "respHeader (Redirect L (newResponse r) r url 301) ''Location'' =
     Some (redirectURL L (URLPath r) url)"
  "body (Redirect L (newResponse r) r url 301) =
     (if Method r = ''GET'' then redirectBody L (URLPath r) url 301 else [])"
  by (simp_all add: Redirect_def Let_def Write_written bodyAllowedForStatus_def statusCode_def)


subsection \<open>Claims about loading\<close>


lemma length_fillBuffer [simp]: "length (fillBuffer n got) = n"
  by (simp add: fillBuffer_def)

lemma compressContents_eq:
  "compressContents L bs =
     (if snd (gzipWrite L bs) = None \<and> length (fst (gzipWrite L bs)) < length bs
      then (fst (gzipWrite L bs), True) else ([], False))"
  by (cases "gzipWrite L bs") (auto simp: compressContents_def split: option.splits)

lemma readFile_ok:
  assumes "Open fs nm = None" and "Read fs nm n = Inr got"
  shows "\<exists>f. readFile L fs nm n = Inr f
           \<and> isGzipped f =
               (snd (gzipWrite L (fillBuffer n got)) = None
                \<and> length (fst (gzipWrite L (fillBuffer n got))) < length (fillBuffer n got))
           \<and> contents f =
               (if isGzipped f then fst (gzipWrite L (fillBuffer n got)) else fillBuffer n got)
           \<and> name f = Base nm \<and> dir f = Dir nm"
  using assms by (simp add: readFile_def compressContents_eq Let_def del: length_fillBuffer)

text \<open>
  C1. A directory entry that is a symbolic link to a directory makes loading fail, and
  the contents of the linked directory never reach the store. The program does
  otherwise: it asks \<^verbatim>\<open>IsDir\<close> of what \<^verbatim>\<open>Lstat\<close> reported, which for a symbolic link
  is never a directory, then follows the link with \<^verbatim>\<open>Stat\<close> and reads the directory
  behind it. On the site whose entry \<^verbatim>\<open>link\<close> points to a directory holding
  \<^verbatim>\<open>a.txt\<close>, \<^verbatim>\<open>newFileServer\<close> returns a server, and its store holds
  \<^verbatim>\<open>/site/link/a.txt\<close>.
\<close>

theorem symlinked_directory_is_loaded:
  "Lstat linkFs ''/site/link'' = Inr (symlinkInfo 5)
   \<and> Mode (symlinkInfo 5) AND ModeSymlink = ModeSymlink
   \<and> Stat linkFs ''/site/link'' = Inr directoryInfo
   \<and> IsDir directoryInfo
   \<and> newFileServer 3 exLib linkFs [] ''/site'' ''index.html'' [] False [] = Some (Inr linkServer)
   \<and> files linkServer ''/site/link/a.txt'' =
         Some (page ''/site/link'' ''a.txt'' ''text/plain; charset=utf-8'' ''hi'')"
  by (simp add: linkFs_calls mode_facts linkFs_loaded linkServer_def addFile_files site_paths)

text \<open>
  The cause, for every file system: when \<^verbatim>\<open>Lstat\<close> reports a symbolic link without
  \<^verbatim>\<open>ModeDir\<close> and \<^verbatim>\<open>Stat\<close> reports a directory, the loader walks the entries of the
  directory; the error for directory links is returned only for a mode that has both
  bits.
\<close>

lemma ModeSymlink_excludes_ModeDir: "ModeSymlink AND ModeDir = 0"
  unfolding ModeDir_numeral ModeSymlink_numeral by simp




text \<open>
  C3. For a path that is a regular file, or a symbolic link to one, that can be opened
  and read, the loader returns a store that holds a record for the file under its
  path, whatever the compressor did. The record is stored compressed if and only if
  the compressor reported no error and its output is strictly shorter than the bytes
  of the file; its contents are the compressed bytes in that case and the bytes of
  the file otherwise.
\<close>

theorem compression_decision:
  assumes "(Lstat fs p = Inr fi \<and> Mode fi AND ModeSymlink \<noteq> ModeSymlink)
           \<or> (\<exists>fi0. Lstat fs p = Inr fi0 \<and> Mode fi0 AND ModeSymlink = ModeSymlink
                  \<and> \<not> IsDir fi0 \<and> Stat fs p = Inr fi)"
    and "\<not> IsDir fi"
    and "Open fs p = None" and "Read fs p (Size fi) = Inr got"
  shows "\<exists>f. loadFiles (Suc k) L fs s p = Some (Inr (addFile s f))
           \<and> files (addFile s f) (Join [dir f, name f]) = Some f
           \<and> isGzipped f =
               (snd (gzipWrite L (fillBuffer (Size fi) got)) = None
                \<and> length (fst (gzipWrite L (fillBuffer (Size fi) got)))
                    < length (fillBuffer (Size fi) got))
           \<and> contents f =
               (if isGzipped f then fst (gzipWrite L (fillBuffer (Size fi) got))
                else fillBuffer (Size fi) got)"
proof -
  from readFile_ok [OF assms(3,4), of L]
  obtain f where f: "readFile L fs p (Size fi) = Inr f"
    and gz: "isGzipped f =
               (snd (gzipWrite L (fillBuffer (Size fi) got)) = None
                \<and> length (fst (gzipWrite L (fillBuffer (Size fi) got)))
                    < length (fillBuffer (Size fi) got))"
    and cs: "contents f =
               (if isGzipped f then fst (gzipWrite L (fillBuffer (Size fi) got))
                else fillBuffer (Size fi) got)"
    by blast
  let ?f = "f\<lparr> lastModified := ModTime fi \<rparr>"
  have "loadFiles (Suc k) L fs s p = Some (Inr (addFile s ?f))"
    using assms(1,2) f by (auto simp: loadFiles.simps)
  moreover have "files (addFile s ?f) (Join [dir ?f, name ?f]) = Some ?f"
    by (simp add: addFile_files)
  ultimately show ?thesis
    using gz cs by (intro exI [of _ ?f]) simp
qed

theorem compression_decision_witness:
  "Lstat siteFs ''/site/big.txt'' = Inr (regularInfo 40)
   \<and> Mode (regularInfo 40) AND ModeSymlink \<noteq> ModeSymlink
   \<and> \<not> IsDir (regularInfo 40)
   \<and> Open siteFs ''/site/big.txt'' = None
   \<and> Read siteFs ''/site/big.txt'' 40 = Inr (replicate 40 (CHR ''a''))
   \<and> (\<exists>f. loadFiles (Suc 0) exLib siteFs siteServer ''/site/big.txt'' = Some (Inr (addFile siteServer f))
         \<and> files (addFile siteServer f) (Join [dir f, name f]) = Some f
         \<and> isGzipped f
         \<and> contents f = replicate 18 (CHR 0x00) @ ''a'')"
proof -
  have calls: "Lstat siteFs ''/site/big.txt'' = Inr (regularInfo 40)"
    "Open siteFs ''/site/big.txt'' = None"
    "Read siteFs ''/site/big.txt'' 40 = Inr (replicate 40 (CHR ''a''))"
    by (simp_all add: siteFs_def plainFs_calls)
  have gz: "gzipWrite exLib (fillBuffer 40 (replicate 40 (CHR ''a''))) =
      (replicate 18 (CHR 0x00) @ ''a'', None)"
    by code_simp
  have "(Lstat siteFs ''/site/big.txt'' = Inr (regularInfo 40)
           \<and> Mode (regularInfo 40) AND ModeSymlink \<noteq> ModeSymlink)
        \<or> (\<exists>fi0. Lstat siteFs ''/site/big.txt'' = Inr fi0 \<and> Mode fi0 AND ModeSymlink = ModeSymlink
               \<and> \<not> IsDir fi0 \<and> Stat siteFs ''/site/big.txt'' = Inr (regularInfo 40))"
    by (simp add: calls mode_facts)
  from compression_decision [OF this mode_facts(2), where k = 0 and L = exLib and s = siteServer]
  obtain f where "loadFiles (Suc 0) exLib siteFs siteServer ''/site/big.txt'' =
        Some (Inr (addFile siteServer f))"
    and "files (addFile siteServer f) (Join [dir f, name f]) = Some f"
    and "isGzipped f" and "contents f = replicate 18 (CHR 0x00) @ ''a''"
    by (auto simp: calls info_fields gz)
  then show ?thesis
    by (auto simp: calls mode_facts)
qed

subsection \<open>Package path: the normal form\<close>

lemma Clean_render:
  "path \<noteq> [] \<Longrightarrow> Clean path = render (hd path = CHR ''/'') (rev (cleanStack path))"
  by (simp add: Clean_def render_def cleanStack_def Let_def)

lemma splitSlash_nonempty [simp]: "splitSlash p \<noteq> []"
  by (induction p) (auto split: list.splits)

lemma splitSlash_append:
  "splitSlash (a @ CHR ''/'' # b) = splitSlash a @ splitSlash b"
  by (induction a) (auto split: list.splits)

lemma splitSlash_no_slash: "CHR ''/'' \<notin> set e \<Longrightarrow> splitSlash e = [e]"
  by (induction e) (auto split: list.splits)

lemma splitSlash_elements: "seg \<in> set (splitSlash p) \<Longrightarrow> CHR ''/'' \<notin> set seg"
  by (induction p arbitrary: seg) (auto split: if_splits list.splits)

lemma splitSlash_joinSlash:
  "out \<noteq> [] \<Longrightarrow> \<forall>e \<in> set out. CHR ''/'' \<notin> set e \<Longrightarrow> splitSlash (joinSlash out) = out"
proof (induction out rule: joinSlash.induct)
  case 1
  then show ?case by simp
next
  case (2 seg)
  then show ?case by (simp add: splitSlash_no_slash)
next
  case (3 seg v va)
  then show ?case
    by (simp add: splitSlash_append splitSlash_no_slash del: joinSlash.simps(3))
       (simp add: splitSlash_append splitSlash_no_slash)
qed

lemma validName_simps [simp]:
  "\<not> validName []" "\<not> validName ''.''" "\<not> validName ''..''"
  by (simp_all add: validName_def)

lemma cleanStep_valid [simp]: "validName e \<Longrightarrow> cleanStep rooted st e = e # st"
  by (auto simp: cleanStep_def validName_def)

lemma normalStack_step:
  assumes "normalStack rooted st" and "CHR ''/'' \<notin> set seg"
  shows "normalStack rooted (cleanStep rooted st seg)"
proof -
  from assms(1) obtain ys n where st: "st = rev ys @ replicate n ''..''"
    and ys: "\<forall>e \<in> set ys. validName e" and n: "if rooted then n = 0 else True"
    unfolding normalStack_def by blast
  consider "seg = [] \<or> seg = ''.''" | "seg = ''..''" | "validName seg"
    using assms(2) by (auto simp: validName_def)
  then show ?thesis
  proof cases
    case 1
    then show ?thesis using assms(1) by (auto simp: cleanStep_def)
  next
    case 2
    show ?thesis
    proof (cases ys rule: rev_cases)
      case Nil
      then have "cleanStep rooted st seg = (if rooted then [] else replicate (Suc n) ''..'')"
        using 2 st n by (cases n) (auto simp: cleanStep_def replicate_append_same)
      then show ?thesis
        unfolding normalStack_def
        by (cases rooted)
           (auto intro: exI [of _ "[]"] simp: exI [of _ 0] exI [of _ "Suc n"])
    next
      case (snoc zs z)
      then have "validName z" using ys by simp
      then have "z \<noteq> ''..''" by auto
      then have "cleanStep rooted st seg = rev zs @ replicate n ''..''"
        using 2 st snoc by (simp add: cleanStep_def)
      then show ?thesis
        unfolding normalStack_def using ys n snoc by (auto intro!: exI [of _ zs] exI [of _ n])
    qed
  next
    case 3
    then have "cleanStep rooted st seg = rev (ys @ [seg]) @ replicate n ''..''"
      using st by simp
    then show ?thesis
      unfolding normalStack_def using ys n 3
      by (intro exI [of _ "ys @ [seg]"] exI [of _ n]) auto
  qed
qed

lemma normalStack_foldl:
  assumes "normalStack rooted st" and "\<forall>seg \<in> set segs. CHR ''/'' \<notin> set seg"
  shows "normalStack rooted (foldl (cleanStep rooted) st segs)"
  using assms by (induction segs arbitrary: st) (auto intro: normalStack_step)

lemma normalStack_empty [simp]: "normalStack rooted []"
  unfolding normalStack_def by (auto intro!: exI [of _ "[]"] exI [of _ 0])

lemma normalStack_cleanStack: "normalStack (hd p = CHR ''/'') (cleanStack p)"
  unfolding cleanStack_def
  by (rule normalStack_foldl) (auto dest: splitSlash_elements)

lemma foldl_valid:
  "\<forall>e \<in> set ys. validName e \<Longrightarrow> foldl (cleanStep rooted) acc ys = rev ys @ acc"
  by (induction ys arbitrary: acc) auto

lemma foldl_dotdots:
  "foldl (cleanStep False) (replicate m ''..'') (replicate n ''..'') = replicate (m + n) ''..''"
proof (induction n arbitrary: m)
  case 0
  then show ?case by simp
next
  case (Suc n)
  have "cleanStep False (replicate m ''..'') ''..'' = replicate (Suc m) ''..''"
    by (cases m) (simp_all add: cleanStep_def)
  then show ?case
    using Suc [of "Suc m"] by simp
qed

lemma reprocess:
  assumes "normalStack rooted st"
  shows "foldl (cleanStep rooted) [] (rev st) = st"
proof -
  from assms obtain ys n where st: "st = rev ys @ replicate n ''..''"
    and ys: "\<forall>e \<in> set ys. validName e" and n: "if rooted then n = 0 else True"
    unfolding normalStack_def by blast
  have "foldl (cleanStep rooted) [] (replicate n ''..'') = replicate n ''..''"
    using n foldl_dotdots [of 0 n] by (cases rooted) simp_all
  then show ?thesis
    using ys by (simp add: st foldl_valid)
qed

lemma normalStack_elements:
  assumes "normalStack rooted st" and "e \<in> set st"
  shows "e \<noteq> []" and "CHR ''/'' \<notin> set e" and "e \<noteq> ''.''"
proof -
  from assms(1) obtain ys n where st: "st = rev ys @ replicate n ''..''"
    and ys: "\<forall>e \<in> set ys. validName e"
    unfolding normalStack_def by blast
  from assms(2) st have "e \<in> set ys \<or> e = ''..''"
    by auto
  then have "validName e \<or> e = ''..''"
    using ys by blast
  then show "e \<noteq> []" and "CHR ''/'' \<notin> set e" and "e \<noteq> ''.''"
    unfolding validName_def by auto
qed

lemma joinSlash_Cons:
  "out \<noteq> [] \<Longrightarrow> joinSlash (e # out) = e @ CHR ''/'' # joinSlash out"
  by (cases out) simp_all

lemma joinSlash_nonempty:
  "out \<noteq> [] \<Longrightarrow> \<forall>e \<in> set out. e \<noteq> [] \<Longrightarrow> joinSlash out \<noteq> []"
  by (cases out rule: joinSlash.cases) simp_all

lemma hd_joinSlash:
  "out \<noteq> [] \<Longrightarrow> \<forall>e \<in> set out. e \<noteq> [] \<Longrightarrow> hd (joinSlash out) = hd (hd out)"
  by (cases out rule: joinSlash.cases) simp_all

lemma render_nonempty:
  assumes "normalStack rooted st"
  shows "render rooted (rev st) \<noteq> []"
  using assms joinSlash_nonempty [of "rev st"]
  by (auto simp: render_def dest: normalStack_elements(1))

lemma hd_render:
  assumes "normalStack rooted st"
  shows "(hd (render rooted (rev st)) = CHR ''/'') = rooted"
proof (cases "rooted \<or> st = []")
  case True
  then show ?thesis by (auto simp: render_def)
next
  case False
  then obtain e out where out: "rev st = e # out"
    by (cases "rev st") auto
  then have "e \<in> set st"
    by (metis list.set_intros(1) set_rev)
  then have e: "e \<noteq> []" "CHR ''/'' \<notin> set e"
    using normalStack_elements [OF assms] by auto
  have "\<forall>x \<in> set (rev st). x \<noteq> []"
    using assms by (auto dest: normalStack_elements(1))
  then have "hd (joinSlash (rev st)) = hd e"
    using out hd_joinSlash [of "rev st"] by simp
  moreover have "hd e \<noteq> CHR ''/''"
    using e by (cases e) auto
  ultimately show ?thesis
    using False by (simp add: render_def)
qed

lemma cleanStack_render:
  assumes "normalStack rooted st"
  shows "cleanStack (render rooted (rev st)) = st"
proof -
  have slash: "\<forall>e \<in> set (rev st). CHR ''/'' \<notin> set e"
    using assms by (auto dest: normalStack_elements(2))
  have hd: "(hd (render rooted (rev st)) = CHR ''/'') = rooted"
    by (rule hd_render [OF assms])
  show ?thesis
  proof (cases "st = []")
    case True
    then show ?thesis
      by (cases rooted) (simp_all add: cleanStack_def render_def cleanStep_def)
  next
    case False
    then have split: "splitSlash (joinSlash (rev st)) = rev st"
      using slash by (intro splitSlash_joinSlash) simp_all
    show ?thesis
    proof (cases rooted)
      case True
      then show ?thesis
        using hd split reprocess [OF assms]
        by (simp add: cleanStack_def render_def cleanStep_def)
    next
      case rel: False
      then have "render rooted (rev st) = joinSlash (rev st)"
        using False by (simp add: render_def)
      then show ?thesis
        using hd split reprocess [OF assms] rel by (simp add: cleanStack_def)
    qed
  qed
qed

text \<open>Cleaning a cleaned path changes nothing.\<close>

lemma Clean_nonempty [simp]: "Clean p \<noteq> []"
proof (cases "p = []")
  case True
  then show ?thesis by (simp add: Clean_def)
next
  case False
  then show ?thesis
    by (simp add: Clean_render render_nonempty normalStack_cleanStack)
qed

lemma hd_Clean: "p \<noteq> [] \<Longrightarrow> (hd (Clean p) = CHR ''/'') = (hd p = CHR ''/'')"
  by (simp add: Clean_render hd_render normalStack_cleanStack)

lemma cleanStack_Clean: "p \<noteq> [] \<Longrightarrow> cleanStack (Clean p) = cleanStack p"
  by (simp add: Clean_render cleanStack_render normalStack_cleanStack)

lemma Clean_idem: "Clean (Clean p) = Clean p"
proof (cases "p = []")
  case True
  have "Clean ''.'' = ''.''"
    by (simp add: Clean_def cleanStep_def)
  then show ?thesis using True by (simp add: Clean_def)
next
  case False
  have "Clean (Clean p) =
      render (hd (Clean p) = CHR ''/'') (rev (cleanStack (Clean p)))"
    by (rule Clean_render) simp
  also have "\<dots> = render (hd p = CHR ''/'') (rev (cleanStack p))"
    using False by (simp add: hd_Clean cleanStack_Clean)
  also have "\<dots> = Clean p"
    using False by (simp add: Clean_render)
  finally show ?thesis .
qed

subsection \<open>Joining a name to a path\<close>






lemma Join_two: "rt \<noteq> [] \<Longrightarrow> Join [rt, x] = Clean (rt @ CHR ''/'' # x)"
  by (simp add: Join_def)


lemma Join_nonempty: "rt \<noteq> [] \<Longrightarrow> Join [rt, x] \<noteq> []"
  by (simp add: Join_two)







subsection \<open>Claims about serving\<close>

lemma request_paths:
  "Join [''/site'', ''/hello.txt''] = ''/site/hello.txt''" "Base ''/hello.txt'' = ''hello.txt''"
  "Join [''/site'', ''/big.txt''] = ''/site/big.txt''" "Base ''/big.txt'' = ''big.txt''"
  "Join [''/site'', ''/nope''] = ''/site/nope''" "Base ''/nope'' = ''nope''"
  "Join [''/site'', ''/docs''] = ''/site/docs''" "Base ''/docs'' = ''docs''"
  "Join [''/site'', ''/docs/index.html''] = ''/site/docs/index.html''"
  "Base ''/docs/index.html'' = ''index.html''" "Dir ''/docs/index.html'' = ''/docs''"
  "Join [''/site'', ''/index.html''] = ''/site/index.html''"
  "Base ''/index.html'' = ''index.html''" "Dir ''/index.html'' = ''/''"
  "Join [''/site'', ''//docs/.././hello.txt/''] = ''/site/hello.txt''"
  "Join [''/site'', ''/hello''] = ''/site/hello''"
  by code_simp+

lemma request_fields [simp]:
  "Method (request0 m p) = m" "URLPath (request0 m p) = p" "RequestURI (request0 m p) = p"
  "Host (request0 m p) = ''example.com''" "Header (request0 m p) key = []"
  "Method (requestSince m p v) = m" "URLPath (requestSince m p v) = p"
  "Header (requestSince m p v) ''If-Modified-Since'' = [v]"
  "Header (requestSince m p v) ''X-Forwarded-Proto'' = []"
  "Method (requestForwarded m p) = m" "URLPath (requestForwarded m p) = p"
  "RequestURI (requestForwarded m p) = p" "Host (requestForwarded m p) = ''example.com''"
  "Header (requestForwarded m p) ''X-Forwarded-Proto'' = [''http'']"
  by (simp_all add: request0_def requestSince_def requestForwarded_def)

lemma server_fields [simp]:
  "root siteServer = ''/site''" "index siteServer = ''index.html''"
  "forceHTTPS siteServer = False" "error404 siteServer = Some missingPage"
  "files siteServer = files (siteFiles ''missing.html'' False)"
  "root defaultServer = ''/site''" "index defaultServer = ''index.html''"
  "forceHTTPS defaultServer = False" "error404 defaultServer = Some homePage"
  "error404Name defaultServer = []"
  "files defaultServer = files (siteFiles [] False)"
  "root httpsServer = ''/site''" "index httpsServer = ''index.html''"
  "forceHTTPS httpsServer = True" "serverName httpsServer = []"
  "root nestedServer = ''/site''" "index nestedServer = ''index.html''"
  "forceHTTPS nestedServer = False" "error404 nestedServer = None"
  by (simp_all add: siteServer_def defaultServer_def httpsServer_def nestedServer_def)

lemma exLib_dates:
  "parseHTTPTime exLib [] = None"
  "parseHTTPTime exLib ''yesterday'' = None"
  "parseHTTPTime exLib ''Thu, 01 Jan 1970 00:00:00 GMT'' = Some 0"
  "parseHTTPTime exLib ''Thu, 01 Jan 1970 00:00:10 GMT'' = Some 10000000000"
  "formatHTTPTime exLib 10000000000 = ''Thu, 01 Jan 1970 00:00:10 GMT''"
  "redirectURL exLib old url = url"
  by (simp_all add: exLib_def)

lemma hGet_simps [simp]: "hGet h key = (case h key of [] \<Rightarrow> [] | v # vs \<Rightarrow> v)"
  by (simp add: hGet_def)

lemma ServeHTTP_get_head:
  assumes "\<not> shouldRedirectToHTTPS s r" and "Method r = ''GET'' \<or> Method r = ''HEAD''"
  shows "ServeHTTP L s w r = serveFile L s w r"
  using assms by (auto simp: ServeHTTP_def)










subsection \<open>What loading keeps\<close>





lemma addFile_index_entries:
  assumes "name f = index s"
  shows "files (addFile s f) (dir f) = Some f"
    and "files (addFile s f) (Join [dir f, index s]) = Some f"
  using assms by (simp_all add: addFile_files)




text \<open>
  C6. With HTTPS enforcement on, a request whose \<^verbatim>\<open>X-Forwarded-Proto\<close> is \<^verbatim>\<open>http\<close> is
  answered by the redirect alone, whatever its method and path and whatever the store
  holds: the answer is what \<^verbatim>\<open>http.Redirect\<close> makes of status 301 and the target
  \<^verbatim>\<open>https://\<close>, the server name (the host of the request when no name is
  configured) and the request URI.
\<close>

theorem https_redirect_first:
  assumes "forceHTTPS s" and "hGet (Header r) ''X-Forwarded-Proto'' = ''http''"
  shows
    "ServeHTTP L s w r =
       Redirect L w r
         (''https://'' @ (if serverName s = [] then Host r else serverName s) @ RequestURI r) 301
     \<and> statusCode (respond L s r) = 301
     \<and> respHeader (respond L s r) ''Location'' =
         Some (redirectURL L (URLPath r)
           (''https://'' @ (if serverName s = [] then Host r else serverName s) @ RequestURI r))"
  using assms
  by (simp add: respond_def ServeHTTP_def shouldRedirectToHTTPS_def redirectToHTTPS_def
      Redirect_fresh del: hGet_simps)

theorem https_redirect_first_witness:
  "forceHTTPS httpsServer
   \<and> hGet (Header (requestForwarded ''POST'' ''/nope'')) ''X-Forwarded-Proto'' = ''http''
   \<and> resolveFile httpsServer (URLPath (requestForwarded ''POST'' ''/nope'')) = None
   \<and> statusCode (respond exLib httpsServer (requestForwarded ''POST'' ''/nope'')) = 301
   \<and> respHeader (respond exLib httpsServer (requestForwarded ''POST'' ''/nope'')) ''Location''
       = Some ''https://example.com/nope''"
proof -
  have h: "forceHTTPS httpsServer"
    "hGet (Header (requestForwarded ''POST'' ''/nope'')) ''X-Forwarded-Proto'' = ''http''"
    by simp_all
  have "resolveFile httpsServer (URLPath (requestForwarded ''POST'' ''/nope'')) = None"
    by (simp add: resolveFile_def request_paths httpsServer_def siteFiles_store)
  with https_redirect_first [OF h, of exLib] show ?thesis
    by (simp add: exLib_dates)
qed







text \<open>What \<^verbatim>\<open>serve404\<close> answers, with and without a fallback record.\<close>

lemma serve404_answers:
  "error404 s = None \<Longrightarrow>
     statusCode (serve404 L s (newResponse r) r) = 404
     \<and> respHeader (serve404 L s (newResponse r) r) = notFoundHeaders
     \<and> body (serve404 L s (newResponse r) r) =
         (if Method r = ''HEAD'' then [] else ''404 page not found'' @ [CHR 0x0A])"
  "error404 s = Some f \<Longrightarrow>
     statusCode (serve404 L s (newResponse r) r) = 404
     \<and> respHeader (serve404 L s (newResponse r) r) = assetHeaders L f
     \<and> body (serve404 L s (newResponse r) r) = (if Method r = ''HEAD'' then [] else contents f)"
  by (simp_all add: serve404_generic NotFound_fresh serve404_fallback)

text \<open>
  C8. When no fallback path is configured, a request for a path that does not resolve
  is answered by the generic not-found response. The program does otherwise when
  the root directory has an index file: it looks the empty fallback path up like any
  other, the join of the root and the empty path is the root, and the store maps the
  root to its index file. The site started without \<^verbatim>\<open>-404\<close> answers a \<^verbatim>\<open>GET\<close> of
  \<^verbatim>\<open>/nope\<close> with status 404 and the home page.
\<close>

theorem unconfigured_fallback_serves_index:
  "newFileServer 3 exLib siteFs [] ''/site'' ''index.html'' [] False [] = Some (Inr defaultServer)
   \<and> error404Name defaultServer = []
   \<and> resolveFile defaultServer ''/nope'' = None
   \<and> statusCode (respond exLib defaultServer (request0 ''GET'' ''/nope'')) = 404
   \<and> respHeader (respond exLib defaultServer (request0 ''GET'' ''/nope'')) ''Content-Type''
       = Some ''text/html; charset=utf-8''
   \<and> body (respond exLib defaultServer (request0 ''GET'' ''/nope'')) = ''<h1>home</h1>''"
proof -
  have "respond exLib defaultServer (request0 ''GET'' ''/nope'') =
      serve404 exLib defaultServer (newResponse (request0 ''GET'' ''/nope'')) (request0 ''GET'' ''/nope'')"
    by (simp add: respond_def ServeHTTP_def shouldRedirectToHTTPS_def serveFile_def resolveFile_def
        request_paths siteFiles_store)
  then show ?thesis
    by (simp add: siteFs_loaded resolveFile_def request_paths siteFiles_store
        serve404_fallback [where f = homePage] assetHeaders_def homePage_def)
qed

text \<open>
  C9. Resolving a request path is one lookup of the join of the root and the path in
  the store. Two paths with the same join resolve alike, and a path whose join is not
  a key of the store is answered by the not-found path with status 404, whatever the
  store holds under other keys.
\<close>

theorem resolve_exact_key:
  "resolveFile s p = files s (Join [root s, p])
   \<and> (Join [root s, p] = Join [root s, q] \<longrightarrow> resolveFile s p = resolveFile s q)
   \<and> (Join [root s, URLPath r] \<notin> dom (files s) \<longrightarrow>
        serveFile L s w r = serve404 L s w r
        \<and> statusCode (serveFile L s (newResponse r) r) = 404)"
proof -
  have "statusCode (serve404 L s (newResponse r) r) = 404"
    by (cases "error404 s") (simp_all add: serve404_answers)
  then show ?thesis
    by (auto simp: resolveFile_def serveFile_def dom_def)
qed

theorem resolve_exact_key_witness:
  "Join [root siteServer, ''/hello.txt''] = Join [root siteServer, ''//docs/.././hello.txt/'']
   \<and> resolveFile siteServer ''/hello.txt'' = Some helloFile
   \<and> resolveFile siteServer ''//docs/.././hello.txt/'' = Some helloFile
   \<and> Join [root siteServer, URLPath (request0 ''GET'' ''/hello'')] \<notin> dom (files siteServer)
   \<and> statusCode (serveFile exLib siteServer (newResponse (request0 ''GET'' ''/hello''))
        (request0 ''GET'' ''/hello'')) = 404"
proof -
  have j: "Join [root siteServer, ''/hello.txt''] = Join [root siteServer, ''//docs/.././hello.txt/'']"
    by (simp add: request_paths)
  have k: "Join [root siteServer, URLPath (request0 ''GET'' ''/hello'')] \<notin> dom (files siteServer)"
    by (simp add: request_paths dom_def siteFiles_def addFile_files emptyServer_def site_paths
        docsPage_def helloFile_def homePage_def missingPage_def)
  note t = resolve_exact_key [of siteServer "''/hello.txt''" "''//docs/.././hello.txt/''"
      "request0 ''GET'' ''/hello''" exLib "newResponse (request0 ''GET'' ''/hello'')"]
  have a: "resolveFile siteServer ''/hello.txt'' = Some helloFile"
    using t by (simp add: request_paths siteFiles_store)
  have b: "resolveFile siteServer ''/hello.txt'' = resolveFile siteServer ''//docs/.././hello.txt/''"
    using t j by blast
  have c: "statusCode (serveFile exLib siteServer (newResponse (request0 ''GET'' ''/hello''))
        (request0 ''GET'' ''/hello'')) = 404"
    using t k by blast
  show ?thesis
    using j k a b c by simp
qed



end
